theory Spec2Isabelle
  imports Main
begin

section \<open>Modifiers of ControlMatcher directives (src/proxy/ControlBase.cc)\<close>

text \<open>
  A shallow embedding of \<^verbatim>\<open>ControlBase.cc\<close>: the ten modifier classes with their
  \<^verbatim>\<open>make\<close>, \<^verbatim>\<open>check\<close>, \<^verbatim>\<open>print\<close>, \<^verbatim>\<open>type\<close> and \<^verbatim>\<open>name\<close> members, and
  \<^verbatim>\<open>ControlBase::Print\<close>, \<^verbatim>\<open>CheckModifiers\<close>, \<^verbatim>\<open>findModOfType\<close> and
  \<^verbatim>\<open>ProcessModifiers\<close>.

  Conventions.
  \<^item> A C string is a \<open>string\<close>; a pointer that may be null is an \<open>option\<close>.
  \<^item> The out-parameter \<^verbatim>\<open>const char **error\<close> is passed explicitly: a \<^verbatim>\<open>make\<close> takes the
    pointee on entry and returns the pointee on exit beside the returned pointer.
  \<^item> A function that would dereference a null pointer has no defined result; its model
    returns \<open>None\<close> in an outer \<open>option\<close>, and \<open>Some r\<close> when it returns \<open>r\<close>.
  \<^item> \<^verbatim>\<open>int\<close> and \<^verbatim>\<open>time_t\<close> values are of type \<open>int\<close>; the conversions of \<^verbatim>\<open>sscanf\<close>
    write out the reduction to 32 bits.
\<close>

subsection \<open>The C library: character classes and comparisons\<close>

definition isspace :: "char \<Rightarrow> bool" where
  "isspace c = (c \<in> {CHR '' '', CHR 0x09, CHR 0x0A, CHR 0x0B, CHR 0x0C, CHR 0x0D})"

definition isdigit :: "char \<Rightarrow> bool" where
  "isdigit c = (48 \<le> (of_char c :: nat) \<and> (of_char c :: nat) \<le> 57)"

definition tolower :: "char \<Rightarrow> char" where
  "tolower c = (let n = (of_char c :: nat) in if 65 \<le> n \<and> n \<le> 90 then char_of (n + 32) else c)"

text \<open>\<^verbatim>\<open>strcasecmp(a, b) == 0\<close>.\<close>

definition strcasecmp_eq :: "string \<Rightarrow> string \<Rightarrow> bool" where
  "strcasecmp_eq a b = (map tolower a = map tolower b)"

text \<open>\<^verbatim>\<open>strncasecmp(a, b, n) == 0\<close>: at most \<open>n\<close> characters of each are compared.\<close>

definition strncasecmp_eq :: "string \<Rightarrow> string \<Rightarrow> nat \<Rightarrow> bool" where
  "strncasecmp_eq a b n = (map tolower (take n a) = map tolower (take n b))"

subsection \<open>The C library: \<^verbatim>\<open>sscanf\<close> with \<^verbatim>\<open>%d\<close> and \<^verbatim>\<open>%u\<close>\<close>

definition digits_value :: "string \<Rightarrow> nat" where
  "digits_value ds = foldl (\<lambda>a c. 10 * a + ((of_char c :: nat) - 48)) 0 ds"

text \<open>
  An integer conversion skips white space, takes an optional sign and needs at least one
  decimal digit. The result is the sign, the magnitude and the unread rest of the input.
\<close>

definition scan_number :: "string \<Rightarrow> (bool \<times> nat \<times> string) option" where
  "scan_number s =
     (let s1 = dropWhile isspace s;
          neg = (case s1 of [] \<Rightarrow> False | c # _ \<Rightarrow> c = CHR ''-'');
          s2 = (case s1 of [] \<Rightarrow> s1 | c # r \<Rightarrow> if c = CHR ''-'' \<or> c = CHR ''+'' then r else s1);
          ds = takeWhile isdigit s2
      in if ds = [] then None else Some (neg, digits_value ds, dropWhile isdigit s2))"

text \<open>
  The value stored in an \<^verbatim>\<open>int\<close>. Within the range of \<^verbatim>\<open>int\<close> it is the number read.
  Beyond it ISO C leaves the result open; the model follows glibc, which converts as
  \<^verbatim>\<open>strtol\<close> (\<^verbatim>\<open>%d\<close>) or \<^verbatim>\<open>strtoul\<close> (\<^verbatim>\<open>%u\<close>) does, saturating at 64 bits, and
  stores the low 32 bits.
\<close>

definition int_wrap :: "int \<Rightarrow> int" where
  "int_wrap v = (v + 2 ^ 31) mod 2 ^ 32 - 2 ^ 31"

definition conv_d :: "bool \<Rightarrow> nat \<Rightarrow> int" where
  "conv_d neg mag =
     int_wrap (max (- (2 ^ 63)) (min (2 ^ 63 - 1) (if neg then - int mag else int mag)))"

definition conv_u :: "bool \<Rightarrow> nat \<Rightarrow> int" where
  "conv_u neg mag =
     int_wrap (if 2 ^ 64 - 1 < int mag then 2 ^ 64 - 1
               else if neg then (2 ^ 64 - int mag) mod 2 ^ 64 else int mag)"

text \<open>
  \<^verbatim>\<open>sscanf(s, "%d", &x)\<close> and \<^verbatim>\<open>sscanf(s, "%u", &x)\<close> with \<^verbatim>\<open>int x\<close>: \<open>Some\<close> of the value
  stored when the call returns 1, \<open>None\<close> otherwise (\<open>x\<close> is left alone).
\<close>

definition sscanf_d :: "string \<Rightarrow> int option" where
  "sscanf_d s = (case scan_number s of None \<Rightarrow> None | Some (neg, mag, _) \<Rightarrow> Some (conv_d neg mag))"

definition sscanf_u :: "string \<Rightarrow> int option" where
  "sscanf_u s = (case scan_number s of None \<Rightarrow> None | Some (neg, mag, _) \<Rightarrow> Some (conv_u neg mag))"

text \<open>
  \<^verbatim>\<open>sscanf(s, "%d:%d:%d", &a, &b, &c)\<close>: the values converted, in order; the length of the
  list is what the call returns (a return of \<^verbatim>\<open>EOF\<close> converts nothing as well). A colon of
  the format matches exactly one colon of the input.
\<close>

definition sscanf_d_d_d :: "string \<Rightarrow> int list" where
  "sscanf_d_d_d s =
     (case scan_number s of
        None \<Rightarrow> []
      | Some (n1, m1, r1) \<Rightarrow>
          (case r1 of
             [] \<Rightarrow> [conv_d n1 m1]
           | c1 # r1' \<Rightarrow>
               if c1 \<noteq> CHR '':'' then [conv_d n1 m1]
               else (case scan_number r1' of
                       None \<Rightarrow> [conv_d n1 m1]
                     | Some (n2, m2, r2) \<Rightarrow>
                         (case r2 of
                            [] \<Rightarrow> [conv_d n1 m1, conv_d n2 m2]
                          | c2 # r2' \<Rightarrow>
                              if c2 \<noteq> CHR '':'' then [conv_d n1 m1, conv_d n2 m2]
                              else (case scan_number r2' of
                                      None \<Rightarrow> [conv_d n1 m1, conv_d n2 m2]
                                    | Some (n3, m3, _) \<Rightarrow>
                                        [conv_d n1 m1, conv_d n2 m2, conv_d n3 m3])))))"

text \<open>\<^verbatim>\<open>sscanf(s, "%d:%d", &a, &b)\<close>.\<close>

definition sscanf_d_d :: "string \<Rightarrow> int list" where
  "sscanf_d_d s =
     (case scan_number s of
        None \<Rightarrow> []
      | Some (n1, m1, r1) \<Rightarrow>
          (case r1 of
             [] \<Rightarrow> [conv_d n1 m1]
           | c1 # r1' \<Rightarrow>
               if c1 \<noteq> CHR '':'' then [conv_d n1 m1]
               else (case scan_number r1' of
                       None \<Rightarrow> [conv_d n1 m1]
                     | Some (n2, m2, _) \<Rightarrow> [conv_d n1 m1, conv_d n2 m2])))"

subsection \<open>The C library: \<^verbatim>\<open>%d\<close> and \<^verbatim>\<open>%ld\<close> of \<^verbatim>\<open>fprintf\<close>\<close>

fun dec_nat :: "nat \<Rightarrow> string" where
  "dec_nat n = (if n < 10 then [char_of (48 + n)] else dec_nat (n div 10) @ [char_of (48 + n mod 10)])"

declare dec_nat.simps [simp del]

definition dec :: "int \<Rightarrow> string" where
  "dec i = (if i < 0 then CHR ''-'' # dec_nat (nat (- i)) else dec_nat (nat i))"

subsection \<open>Collaborators that are not part of the file\<close>

text \<open>
  Modelled from the spec: the class \<^verbatim>\<open>Tokenizer\<close> (tscore/Tokenizer.h), used by
  \<^verbatim>\<open>TimeMod::make\<close> and \<^verbatim>\<open>PortMod::make\<close> with the delimiter \<^verbatim>\<open>-\<close>. The spec counts
  separators: no separator is one token, one separator is two tokens, more than one
  separator is more than two tokens. So \<open>Tokenizer_Initialize d s\<close> cuts \<open>s\<close> at every
  occurrence of \<open>d\<close>; the number of tokens is the length of the list.
\<close>

fun Tokenizer_Initialize :: "char \<Rightarrow> string \<Rightarrow> string list" where
  "Tokenizer_Initialize d [] = [] # []"
| "Tokenizer_Initialize d (c # cs) =
     (if c = d then [] # Tokenizer_Initialize d cs
      else (case Tokenizer_Initialize d cs of
              [] \<Rightarrow> [c] # []
            | t # ts \<Rightarrow> (c # t) # ts))"

text \<open>\<^verbatim>\<open>rangeTok[i]\<close>: the token, or a null pointer beyond the tokens found.\<close>

definition Tokenizer_at :: "string list \<Rightarrow> nat \<Rightarrow> string option" where
  "Tokenizer_at toks i = (if i < length toks then Some (toks ! i) else None)"

text \<open>
  \<^verbatim>\<open>struct tm\<close> as \<^verbatim>\<open>TimeMod::check\<close> reads it, and the functions of other files that the
  modifiers call, taken as parameters: \<^verbatim>\<open>ExtractIpRange\<close> (an error message, or the two
  addresses), \<^verbatim>\<open>hdrtoken_tokenize\<close>, \<^verbatim>\<open>hdrtoken_index_to_wks\<close>, \<^verbatim>\<open>ats_ip_addr_cmp\<close>,
  \<^verbatim>\<open>ats_ip_ntop\<close> and \<^verbatim>\<open>ink_localtime_r\<close>. The type \<open>'ip\<close> stands for \<^verbatim>\<open>IpEndpoint\<close>.
\<close>

record tm =
  tm_hour :: int
  tm_min :: int
  tm_sec :: int

record 'ip externals =
  ExtractIpRange :: "string \<Rightarrow> string + 'ip \<times> 'ip"
  hdrtoken_tokenize :: "string \<Rightarrow> int"
  hdrtoken_index_to_wks :: "int \<Rightarrow> string"
  ats_ip_addr_cmp :: "'ip \<Rightarrow> 'ip \<Rightarrow> int"
  ats_ip_ntop :: "'ip \<Rightarrow> string"
  ink_localtime_r :: "int \<Rightarrow> tm"

text \<open>
  The request as the modifiers read it: \<^verbatim>\<open>HttpRequestData\<close> with its header \<^verbatim>\<open>hdr\<close>
  (null for a request without one) and the accessors of the header that are called.
\<close>

record HTTPHdr =
  port_get :: int
  method_get :: string
  scheme_get_wksidx :: int
  path_get :: string

record 'ip HttpRequestData =
  hdr :: "HTTPHdr option"
  tag :: "string option"
  xact_start :: int
  src_ip :: 'ip
  incoming_port :: int
  internal_txn :: bool

subsection \<open>The modifier classes\<close>

text \<open>
  Modelled from the spec: the enumeration \<^verbatim>\<open>ControlBase::Modifier::Type\<close> (declared in
  proxy/ControlBase.h), whose tags the spec lists.
\<close>

datatype Type = INVALID | TIME | PORT | IPORT | SCHEME | METHOD | PREFIX | SUFFIX | SRC_IP | TAG | INTERNAL

text \<open>One constructor for each class derived from \<^verbatim>\<open>ControlBase::Modifier\<close>, with its fields.\<close>

datatype 'ip Modifier =
    TimeMod int int
  | PortMod int int
  | IPortMod int
  | SrcIPMod 'ip 'ip
  | SchemeMod int
  | MethodMod string
  | PrefixMod string
  | SuffixMod "string list"
  | TagMod string
  | InternalMod bool

text \<open>
  \<^verbatim>\<open>type()\<close>: the override of the class, and \<^verbatim>\<open>Modifier::type\<close> of the base class for
  \<^verbatim>\<open>PortMod\<close> and \<^verbatim>\<open>IPortMod\<close>, which declare none.
\<close>

fun Modifier_type :: "'ip Modifier \<Rightarrow> Type" where
  "Modifier_type (TimeMod _ _) = TIME"
| "Modifier_type (PortMod _ _) = INVALID"
| "Modifier_type (IPortMod _) = INVALID"
| "Modifier_type (SrcIPMod _ _) = SRC_IP"
| "Modifier_type (SchemeMod _) = SCHEME"
| "Modifier_type (MethodMod _) = METHOD"
| "Modifier_type (PrefixMod _) = PREFIX"
| "Modifier_type (SuffixMod _) = SUFFIX"
| "Modifier_type (TagMod _) = TAG"
| "Modifier_type (InternalMod _) = INTERNAL"

fun Modifier_name :: "'ip Modifier \<Rightarrow> string" where
  "Modifier_name (TimeMod _ _) = ''Time''"
| "Modifier_name (PortMod _ _) = ''Port''"
| "Modifier_name (IPortMod _) = ''IPort''"
| "Modifier_name (SrcIPMod _ _) = ''SrcIP''"
| "Modifier_name (SchemeMod _) = ''Scheme''"
| "Modifier_name (MethodMod _) = ''Method''"
| "Modifier_name (PrefixMod _) = ''Prefix''"
| "Modifier_name (SuffixMod _) = ''Suffix''"
| "Modifier_name (TagMod _) = ''Tag''"
| "Modifier_name (InternalMod _) = ''Internal''"

subsection \<open>Construction: the \<^verbatim>\<open>make\<close> functions\<close>

text \<open>
  \<^verbatim>\<open>TimeMod::timeOfDayToSeconds\<close> calls \<^verbatim>\<open>sscanf\<close> twice. \<open>scanned_time\<close> is what
  \<^verbatim>\<open>hour\<close>, \<^verbatim>\<open>min\<close> and \<^verbatim>\<open>sec\<close> hold after the calls, \<open>None\<close> when neither matched.
  When only the second call matches, \<^verbatim>\<open>sec\<close> keeps its initial 0.
\<close>

definition scanned_time :: "string \<Rightarrow> (int \<times> int \<times> int) option" where
  "scanned_time time_str =
     (case sscanf_d_d_d time_str of
        [hour, minute, sec] \<Rightarrow> Some (hour, minute, sec)
      | _ \<Rightarrow> (case sscanf_d_d time_str of
                [hour, minute] \<Rightarrow> Some (hour, minute, 0)
              | _ \<Rightarrow> None))"

text \<open>The error string, or the value written to \<^verbatim>\<open>*seconds\<close>.\<close>

definition timeOfDayToSeconds :: "string \<Rightarrow> string + int" where
  "timeOfDayToSeconds time_str =
     (case scanned_time time_str of
        None \<Rightarrow> Inl ''Malformed time specified''
      | Some (hour, minute, sec) \<Rightarrow>
          if \<not> (hour \<ge> 0 \<and> hour \<le> 23) then Inl ''Illegal hour specification''
          else if \<not> (minute \<ge> 0 \<and> minute \<le> 59) then Inl ''Illegal minute specification''
          else if \<not> (sec \<ge> 0 \<and> sec \<le> 59) then Inl ''Illegal second specification''
          else Inr ((hour * 60 + minute) * 60 + sec))"

text \<open>
  Every \<^verbatim>\<open>make\<close> takes the value and the pointee of \<^verbatim>\<open>error\<close>, and returns the pointer
  to the modifier (null when none is made) with the pointee of \<^verbatim>\<open>error\<close> on return.
\<close>

type_synonym 'ip made = "('ip Modifier option \<times> string option) option"

definition TimeMod_make :: "string \<Rightarrow> string option \<Rightarrow> 'ip made" where
  "TimeMod_make val error =
     (let rangeTok = Tokenizer_Initialize CHR ''-'' val;
          num_tok = length rangeTok
      in if num_tok = 1 then Some (None, Some ''End time not specified'')
         else if num_tok > 2 then Some (None, Some ''Malformed time range'')
         else (case Tokenizer_at rangeTok 0 of
                 None \<Rightarrow> None
               | Some tok0 \<Rightarrow>
                   (case timeOfDayToSeconds tok0 of
                      Inl e \<Rightarrow> Some (None, Some e)
                    | Inr start_time \<Rightarrow>
                        (case Tokenizer_at rangeTok 1 of
                           None \<Rightarrow> None
                         | Some tok1 \<Rightarrow>
                             (case timeOfDayToSeconds tok1 of
                                Inl e \<Rightarrow> Some (None, Some e)
                              | Inr end_time \<Rightarrow> Some (Some (TimeMod start_time end_time), None))))))"

definition PortMod_make :: "string \<Rightarrow> string option \<Rightarrow> 'ip made" where
  "PortMod_make val error =
     (let rangeTok = Tokenizer_Initialize CHR ''-'' val;
          num_tok = length rangeTok
      in if num_tok > 2 then Some (None, Some ''Malformed Range'')
         else (case Tokenizer_at rangeTok 0 of
                 None \<Rightarrow> None
               | Some tok0 \<Rightarrow>
                   (case sscanf_d tok0 of
                      None \<Rightarrow> Some (None, Some ''Invalid start port'')
                    | Some start_port \<Rightarrow>
                        if num_tok = 2 then
                          (case Tokenizer_at rangeTok 1 of
                             None \<Rightarrow> None
                           | Some tok1 \<Rightarrow>
                               (case sscanf_d tok1 of
                                  None \<Rightarrow> Some (None, Some ''Invalid end port'')
                                | Some end_port \<Rightarrow>
                                    if end_port < start_port
                                    then Some (None, Some ''Malformed Range: end port < start port'')
                                    else Some (Some (PortMod start_port end_port), None)))
                        else Some (Some (PortMod start_port start_port), None))))"

definition IPortMod_make :: "string \<Rightarrow> string option \<Rightarrow> 'ip made" where
  "IPortMod_make val error =
     (case sscanf_u val of
        Some port \<Rightarrow> Some (Some (IPortMod port), error)
      | None \<Rightarrow> Some (None, Some ''Invalid incoming port''))"

definition SrcIPMod_make :: "'ip externals \<Rightarrow> string \<Rightarrow> string option \<Rightarrow> 'ip made" where
  "SrcIPMod_make ext val error =
     (case ExtractIpRange ext val of
        Inl e \<Rightarrow> Some (None, Some e)
      | Inr (start_addr, end_addr) \<Rightarrow> Some (Some (SrcIPMod start_addr end_addr), None))"

definition SchemeMod_make :: "'ip externals \<Rightarrow> string \<Rightarrow> string option \<Rightarrow> 'ip made" where
  "SchemeMod_make ext val error =
     (let scheme = hdrtoken_tokenize ext val
      in if scheme < 0 then Some (None, Some ''Unknown scheme'')
         else Some (Some (SchemeMod scheme), error))"

definition MethodMod_make :: "string \<Rightarrow> string option \<Rightarrow> 'ip made" where
  "MethodMod_make val error = Some (Some (MethodMod val), error)"

definition PrefixMod_make :: "string \<Rightarrow> string option \<Rightarrow> 'ip made" where
  "PrefixMod_make val error = Some (Some (PrefixMod (dropWhile (\<lambda>c. c = CHR ''/'') val)), error)"

text \<open>
  \<^verbatim>\<open>MultiTextMod::set\<close>: \<^verbatim>\<open>ltrim(',')\<close> drops the leading commas and the loop runs while
  text is left; \<^verbatim>\<open>take_prefix_at(',')\<close> removes and returns the text before the next
  comma, and removes that comma.
\<close>

function MultiTextMod_set :: "string \<Rightarrow> string list" where
  "MultiTextMod_set src =
     (let s = dropWhile (\<lambda>c. c = CHR '','') src
      in if s = [] then []
         else takeWhile (\<lambda>c. c \<noteq> CHR '','') s
              # MultiTextMod_set (drop 1 (dropWhile (\<lambda>c. c \<noteq> CHR '','') s)))"
  by pat_completeness auto
termination
proof (relation "measure length")
  show "wf (measure (length :: string \<Rightarrow> nat))" by simp
next
  fix src s :: string
  assume s: "s = dropWhile (\<lambda>c. c = CHR '','') src" and ne: "s \<noteq> []"
  have "length (dropWhile (\<lambda>c. c \<noteq> CHR '','') s) \<le> length s"
    by (rule length_dropWhile_le)
  moreover have "length s \<le> length src"
    unfolding s by (rule length_dropWhile_le)
  moreover obtain c cs where "s = c # cs" using ne by (cases s) auto
  ultimately have "length (drop 1 (dropWhile (\<lambda>c. c \<noteq> CHR '','') s)) < length src"
    by (simp del: dropWhile.simps)
  then show "(drop 1 (dropWhile (\<lambda>c. c \<noteq> CHR '','') s), src) \<in> measure length"
    by simp
qed

declare MultiTextMod_set.simps [simp del]

definition SuffixMod_make :: "string \<Rightarrow> string option \<Rightarrow> 'ip made" where
  "SuffixMod_make val error = Some (Some (SuffixMod (MultiTextMod_set val)), error)"

definition TagMod_make :: "string \<Rightarrow> string option \<Rightarrow> 'ip made" where
  "TagMod_make val error = Some (Some (TagMod val), error)"

text \<open>
  \<^verbatim>\<open>InternalMod::make\<close> compares with \<^verbatim>\<open>strncasecmp\<close> over 5 and 4 characters, sets the
  message in the last branch only, and then tests \<^verbatim>\<open>*error\<close>.
\<close>

definition InternalMod_make :: "string \<Rightarrow> string option \<Rightarrow> 'ip made" where
  "InternalMod_make val error =
     (if strncasecmp_eq ''false'' val 5 then
        (if error \<noteq> None then Some (None, error) else Some (Some (InternalMod False), error))
      else if strncasecmp_eq ''true'' val 4 then
        (if error \<noteq> None then Some (None, error) else Some (Some (InternalMod True), error))
      else Some (None, Some ''Value must be true or false''))"

subsection \<open>\<^verbatim>\<open>check\<close> and \<^verbatim>\<open>print\<close>\<close>

text \<open>
  \<^verbatim>\<open>check(req)\<close>. The classes that read the header dereference \<^verbatim>\<open>req->hdr\<close>, and
  \<^verbatim>\<open>TagMod::check\<close> passes \<^verbatim>\<open>req->tag\<close> to \<^verbatim>\<open>strcmp\<close>: with a null pointer there the
  result is \<open>None\<close>.
\<close>

fun Modifier_check :: "'ip externals \<Rightarrow> 'ip Modifier \<Rightarrow> 'ip HttpRequestData \<Rightarrow> bool option" where
  "Modifier_check ext (TimeMod start_time end_time) req =
     (let cur_time = ink_localtime_r ext (xact_start req);
          timeOfDay = tm_hour cur_time * (60 * 60) + tm_min cur_time * 60 + tm_sec cur_time
      in Some (start_time \<le> timeOfDay \<and> timeOfDay \<le> end_time))"
| "Modifier_check ext (PortMod start_port end_port) req =
     (case hdr req of
        None \<Rightarrow> None
      | Some h \<Rightarrow> (let port = port_get h in Some (start_port \<le> port \<and> port \<le> end_port)))"
| "Modifier_check ext (IPortMod port) req = Some (incoming_port req = port)"
| "Modifier_check ext (SrcIPMod start_addr end_addr) req =
     Some (ats_ip_addr_cmp ext start_addr (src_ip req) \<le> 0
           \<and> ats_ip_addr_cmp ext (src_ip req) end_addr \<le> 0)"
| "Modifier_check ext (SchemeMod scheme) req =
     (case hdr req of
        None \<Rightarrow> None
      | Some h \<Rightarrow> Some (scheme_get_wksidx h = scheme))"
| "Modifier_check ext (MethodMod text) req =
     (case hdr req of
        None \<Rightarrow> None
      | Some h \<Rightarrow>
          (let method = method_get h
           in Some (length method \<ge> length text \<and> strncasecmp_eq method text (length text))))"
| "Modifier_check ext (PrefixMod text) req =
     (case hdr req of
        None \<Rightarrow> None
      | Some h \<Rightarrow>
          (let path = path_get h
           in Some (length path \<ge> length text \<and> take (length text) path = text)))"
| "Modifier_check ext (SuffixMod text_vec) req =
     (case hdr req of
        None \<Rightarrow> None
      | Some h \<Rightarrow>
          (let path = path_get h
           in if text_vec = [CHR ''*''] # [] then Some True
              else Some (list_ex (\<lambda>text_iter.
                     length path \<ge> length text_iter
                     \<and> strncasecmp_eq (drop (length path - length text_iter) path) text_iter
                          (length text_iter)) text_vec)))"
| "Modifier_check ext (TagMod text) req =
     (case tag req of
        None \<Rightarrow> None
      | Some t \<Rightarrow> Some (t = text))"
| "Modifier_check ext (InternalMod flag) req = Some (internal_txn req = flag)"

text \<open>\<^verbatim>\<open>print(f)\<close>: the characters written to \<^verbatim>\<open>f\<close>.\<close>

fun Modifier_print :: "'ip externals \<Rightarrow> 'ip Modifier \<Rightarrow> string" where
  "Modifier_print ext (TimeMod start_time end_time) =
     Modifier_name (TimeMod start_time end_time :: 'ip Modifier) @ ''='' @ dec start_time @ ''-''
       @ dec end_time @ ''  ''"
| "Modifier_print ext (PortMod start_port end_port) =
     Modifier_name (PortMod start_port end_port :: 'ip Modifier) @ ''='' @ dec start_port @ ''-''
       @ dec end_port @ ''  ''"
| "Modifier_print ext (IPortMod port) =
     Modifier_name (IPortMod port :: 'ip Modifier) @ ''='' @ dec port @ ''  ''"
| "Modifier_print ext (SrcIPMod start_addr end_addr) =
     Modifier_name (SrcIPMod start_addr end_addr) @ ''='' @ ats_ip_ntop ext start_addr @ ''-''
       @ ats_ip_ntop ext end_addr @ ''  ''"
| "Modifier_print ext (SchemeMod scheme) =
     Modifier_name (SchemeMod scheme :: 'ip Modifier) @ ''='' @ hdrtoken_index_to_wks ext scheme
       @ ''  ''"
| "Modifier_print ext (MethodMod text) =
     Modifier_name (MethodMod text :: 'ip Modifier) @ ''='' @ text @ ''  ''"
| "Modifier_print ext (PrefixMod text) =
     Modifier_name (PrefixMod text :: 'ip Modifier) @ ''='' @ text @ ''  ''"
| "Modifier_print ext (SuffixMod text_vec) =
     concat (map (\<lambda>text_iter.
       Modifier_name (SuffixMod text_vec :: 'ip Modifier) @ ''='' @ text_iter @ '' '') text_vec)"
| "Modifier_print ext (TagMod text) =
     Modifier_name (TagMod text :: 'ip Modifier) @ ''='' @ text @ ''  ''"
| "Modifier_print ext (InternalMod flag) =
     Modifier_name (InternalMod flag :: 'ip Modifier) @ ''=''
       @ (if flag then ''true'' else ''false'') @ ''  ''"

subsection \<open>\<^verbatim>\<open>ControlBase\<close>\<close>

text \<open>\<^verbatim>\<open>_mods\<close>: a vector of owning pointers, each of which may be null.\<close>

type_synonym 'ip mods = "'ip Modifier option list"

definition clear :: "'ip mods \<Rightarrow> 'ip mods" where
  "clear mods = []"

text \<open>\<^verbatim>\<open>ControlBase::Print\<close>: the characters written to the standard output.\<close>

definition Print :: "'ip externals \<Rightarrow> 'ip mods \<Rightarrow> string" where
  "Print ext mods =
     (let n = int (length mods)
      in if 0 \<ge> n then []
         else [CHR 0x09, CHR 0x09, CHR 0x09]
              @ concat (map (\<lambda>cur_mod. case cur_mod of
                                          None \<Rightarrow> ''INVALID  ''
                                        | Some m \<Rightarrow> Modifier_print ext m) mods)
              @ [CHR 0x0A])"

fun findModOfType :: "'ip mods \<Rightarrow> Type \<Rightarrow> 'ip Modifier option" where
  "findModOfType [] t = None"
| "findModOfType (m # ms) t =
     (case m of
        None \<Rightarrow> findModOfType ms t
      | Some md \<Rightarrow> if t = Modifier_type md then Some md else findModOfType ms t)"

text \<open>The loop of \<^verbatim>\<open>CheckModifiers\<close> over \<^verbatim>\<open>_mods\<close>.\<close>

fun check_each :: "'ip externals \<Rightarrow> 'ip mods \<Rightarrow> 'ip HttpRequestData \<Rightarrow> bool option" where
  "check_each ext [] req = Some True"
| "check_each ext (cur_mod # ms) req =
     (case cur_mod of
        None \<Rightarrow> check_each ext ms req
      | Some m \<Rightarrow>
          (case Modifier_check ext m req of
             None \<Rightarrow> None
           | Some ok \<Rightarrow> if \<not> ok then Some False else check_each ext ms req))"

definition CheckModifiers :: "'ip externals \<Rightarrow> 'ip mods \<Rightarrow> 'ip HttpRequestData \<Rightarrow> bool option" where
  "CheckModifiers ext mods request_data =
     (if hdr request_data = None then Some True
      else if tag request_data = None \<and> findModOfType mods TAG \<noteq> None then Some False
      else check_each ext mods request_data)"

datatype mod_errors = UNKNOWN | PARSE_FAILED | BAD_MOD | CALLEE_GENERATED

fun errorFormats :: "mod_errors \<Rightarrow> string" where
  "errorFormats UNKNOWN = ''Unknown error parsing modifier''"
| "errorFormats PARSE_FAILED = ''Unable to parse modifier''"
| "errorFormats BAD_MOD = ''Unknown modifier''"
| "errorFormats CALLEE_GENERATED = ''Callee Generated''"

text \<open>
  \<^verbatim>\<open>matcher_line\<close> as \<^verbatim>\<open>ProcessModifiers\<close> reads it: the element count and the array
  \<^verbatim>\<open>line[2][MATCHER_MAX_TOKENS]\<close>, here the list of its columns
  \<^verbatim>\<open>(line[0][i], line[1][i])\<close>, label and value; its length is \<^verbatim>\<open>MATCHER_MAX_TOKENS\<close>.
\<close>

record matcher_line =
  num_el :: int
  line :: "(string option \<times> string option) list"

text \<open>
  The chain of label comparisons in the loop of \<^verbatim>\<open>ProcessModifiers\<close>: the pointer
  \<^verbatim>\<open>mod\<close>, \<^verbatim>\<open>errBuf\<close> and \<^verbatim>\<open>err\<close> after it. A branch that calls a \<^verbatim>\<open>make\<close> leaves
  \<^verbatim>\<open>err\<close> as it is (\<open>with_err\<close>); the last branch sets it.
\<close>

definition with_err ::
  "mod_errors \<Rightarrow> 'ip made \<Rightarrow> ('ip Modifier option \<times> string option \<times> mod_errors) option" where
  "with_err err r = (case r of None \<Rightarrow> None | Some (m, e) \<Rightarrow> Some (m, e, err))"

definition make_by_label ::
  "'ip externals \<Rightarrow> string \<Rightarrow> string \<Rightarrow> string option \<Rightarrow> mod_errors
    \<Rightarrow> ('ip Modifier option \<times> string option \<times> mod_errors) option" where
  "make_by_label ext label val errBuf err =
     (if strcasecmp_eq label ''port'' then with_err err (PortMod_make val errBuf)
      else if strcasecmp_eq label ''iport'' then with_err err (IPortMod_make val errBuf)
      else if strcasecmp_eq label ''scheme'' then with_err err (SchemeMod_make ext val errBuf)
      else if strcasecmp_eq label ''method'' then with_err err (MethodMod_make val errBuf)
      else if strcasecmp_eq label ''prefix'' then with_err err (PrefixMod_make val errBuf)
      else if strcasecmp_eq label ''suffix'' then with_err err (SuffixMod_make val errBuf)
      else if strcasecmp_eq label ''src_ip'' then with_err err (SrcIPMod_make ext val errBuf)
      else if strcasecmp_eq label ''time'' then with_err err (TimeMod_make val errBuf)
      else if strcasecmp_eq label ''tag'' then with_err err (TagMod_make val errBuf)
      else if strcasecmp_eq label ''internal'' then with_err err (InternalMod_make val errBuf)
      else Some (None, errBuf, BAD_MOD))"

text \<open>
  The loop of \<^verbatim>\<open>ProcessModifiers\<close>, over the columns from index \<open>i\<close> on, with the state
  \<^verbatim>\<open>n_elts\<close>, \<^verbatim>\<open>err\<close>, \<^verbatim>\<open>errBuf\<close> and \<^verbatim>\<open>_mods\<close>. The loop condition is tested first;
  \<^verbatim>\<open>continue\<close> goes to the next column and \<^verbatim>\<open>break\<close> leaves with the state.
\<close>

fun scan_line ::
  "'ip externals \<Rightarrow> (string option \<times> string option) list \<Rightarrow> int \<Rightarrow> mod_errors \<Rightarrow> string option
    \<Rightarrow> 'ip mods \<Rightarrow> (mod_errors \<times> string option \<times> 'ip mods) option" where
  "scan_line ext [] n_elts err errBuf mods = Some (err, errBuf, mods)"
| "scan_line ext ((label, val) # rest) n_elts err errBuf mods =
     (if n_elts \<noteq> 0 \<and> UNKNOWN = err then
        (case label of
           None \<Rightarrow> scan_line ext rest n_elts err errBuf mods
         | Some l \<Rightarrow>
             (case val of
                None \<Rightarrow> Some (PARSE_FAILED, errBuf, mods)
              | Some v \<Rightarrow>
                  (case make_by_label ext l v errBuf err of
                     None \<Rightarrow> None
                   | Some (md, errBuf', err') \<Rightarrow>
                       (let err'' = (if errBuf' \<noteq> None then CALLEE_GENERATED else err')
                        in if UNKNOWN = err''
                           then scan_line ext rest (n_elts - 1) err'' errBuf' (mods @ [md])
                           else scan_line ext rest n_elts err'' errBuf' mods))))
      else Some (err, errBuf, mods))"

text \<open>
  \<^verbatim>\<open>ProcessModifiers\<close>: the returned error message (null when there is none) and
  \<^verbatim>\<open>_mods\<close> on return.
\<close>

definition ProcessModifiers ::
  "'ip externals \<Rightarrow> matcher_line \<Rightarrow> 'ip mods \<Rightarrow> (string option \<times> 'ip mods) option" where
  "ProcessModifiers ext line_info mods =
     (let n_elts = num_el line_info
      in if 0 \<ge> n_elts then Some (None, mods)
         else (case scan_line ext (line line_info) n_elts UNKNOWN None (clear mods) of
                 None \<Rightarrow> None
               | Some (err, errBuf, mods') \<Rightarrow>
                   if err \<noteq> UNKNOWN
                   then Some (if err \<noteq> CALLEE_GENERATED then Some (errorFormats err) else errBuf,
                              clear mods')
                   else Some (errBuf, mods')))"

subsection \<open>Notions of the specification and sample data\<close>

text \<open>
  The local wall-clock time of the start of the transaction, in seconds since midnight:
  the hour, minute and second of the local time, weighted.
\<close>

definition local_seconds :: "'ip externals \<Rightarrow> 'ip HttpRequestData \<Rightarrow> int" where
  "local_seconds ext req =
     (let cur_time = ink_localtime_r ext (xact_start req)
      in tm_hour cur_time * 3600 + tm_min cur_time * 60 + tm_sec cur_time)"

text \<open>Sample collaborators, a header and requests, for the instances below.\<close>

definition example_externals :: "nat externals" where
  "example_externals =
     \<lparr>ExtractIpRange = (\<lambda>s. Inl ''no address''),
      hdrtoken_tokenize = (\<lambda>s. if s = ''http'' then 1 else - 1),
      hdrtoken_index_to_wks = (\<lambda>i. ''http''),
      ats_ip_addr_cmp = (\<lambda>a b. int a - int b),
      ats_ip_ntop = (\<lambda>a. dec_nat a),
      ink_localtime_r = (\<lambda>t. \<lparr>tm_hour = (t div 3600) mod 24, tm_min = (t div 60) mod 60,
                                tm_sec = t mod 60\<rparr>)\<rparr>"

definition example_header :: HTTPHdr where
  "example_header =
     \<lparr>port_get = 80, method_get = ''GET'', scheme_get_wksidx = 1, path_get = ''a/index.html''\<rparr>"

definition example_request :: "HTTPHdr option \<Rightarrow> string option \<Rightarrow> nat HttpRequestData" where
  "example_request h t =
     \<lparr>hdr = h, tag = t, xact_start = 36000, src_ip = 0, incoming_port = 8080, internal_txn = False\<rparr>"

definition request_on_port :: "int \<Rightarrow> nat HttpRequestData" where
  "request_on_port p =
     \<lparr>hdr = Some \<lparr>port_get = p, method_get = ''GET'', scheme_get_wksidx = 1, path_get = ''a''\<rparr>,
      tag = None, xact_start = 0, src_ip = 0, incoming_port = 8080, internal_txn = False\<rparr>"

subsection \<open>Notions for the line processor\<close>

text \<open>
  The columns that the loop of \<^verbatim>\<open>ProcessModifiers\<close> can reach: those with a label, in
  the order of the array, as many as the element count says.
\<close>

definition pending_of :: "int \<Rightarrow> (string option \<times> string option) list \<Rightarrow> (string option \<times> string option) list" where
  "pending_of n slots = take (nat n) (filter (\<lambda>(label, val). label \<noteq> None) slots)"

definition pending :: "matcher_line \<Rightarrow> (string option \<times> string option) list" where
  "pending line_info = pending_of (num_el line_info) (line line_info)"

text \<open>The pointer that the \<^verbatim>\<open>make\<close> chosen by the label returns for a column.\<close>

definition entry_mod :: "'ip externals \<Rightarrow> string option \<times> string option \<Rightarrow> 'ip Modifier option" where
  "entry_mod ext e =
     (case e of
        (Some l, Some v) \<Rightarrow>
          (case make_by_label ext l v None UNKNOWN of Some (md, _, _) \<Rightarrow> md | None \<Rightarrow> None)
      | _ \<Rightarrow> None)"

text \<open>A column is accepted when a modifier is made from it and no error is set.\<close>

definition accepted :: "'ip externals \<Rightarrow> string option \<times> string option \<Rightarrow> bool" where
  "accepted ext e =
     (case e of
        (Some l, Some v) \<Rightarrow>
          (case make_by_label ext l v None UNKNOWN of
             Some (Some m, None, UNKNOWN) \<Rightarrow> True
           | _ \<Rightarrow> False)
      | _ \<Rightarrow> False)"

text \<open>The labels that the loop compares with, and a label that matches none of them.\<close>

definition known_labels :: "string list" where
  "known_labels = [''port'', ''iport'', ''scheme'', ''method'', ''prefix'', ''suffix'', ''src_ip'',
                   ''time'', ''tag'', ''internal'']"

definition unrecognized :: "string \<Rightarrow> bool" where
  "unrecognized l = (\<forall>k \<in> set known_labels. \<not> strcasecmp_eq l k)"

text \<open>
  A \<^verbatim>\<open>make\<close> returns, with a modifier or with an error message, and not with both or
  neither. \<open>entry_failure\<close> is \<^verbatim>\<open>err\<close> and \<^verbatim>\<open>errBuf\<close> after a column that is not
  accepted.
\<close>

definition well_made :: "'ip made \<Rightarrow> bool" where
  "well_made r = (\<exists>md eb. r = Some (md, eb) \<and> (md = None \<longleftrightarrow> eb \<noteq> None))"

definition entry_failure :: "'ip externals \<Rightarrow> string option \<times> string option \<Rightarrow> mod_errors \<times> string option" where
  "entry_failure ext e =
     (case e of
        (Some l, Some v) \<Rightarrow>
          (case make_by_label ext l v None UNKNOWN of
             Some (md, eb, err') \<Rightarrow> (if eb \<noteq> None then CALLEE_GENERATED else err', eb)
           | None \<Rightarrow> (UNKNOWN, None))
      | _ \<Rightarrow> (PARSE_FAILED, None))"

definition good_triple :: "('ip Modifier option \<times> string option \<times> mod_errors) option \<Rightarrow> bool" where
  "good_triple t = ((\<exists>m. t = Some (Some m, None, UNKNOWN)) \<or> (\<exists>msg. t = Some (None, Some msg, UNKNOWN)))"

text \<open>Sample lines.\<close>

definition accepted_line :: matcher_line where
  "accepted_line = \<lparr>num_el = 2, line = [(Some ''port'', Some ''80''), (None, None), (Some ''Tag'', Some ''x''), (None, None)]\<rparr>"

definition null_value_line :: matcher_line where
  "null_value_line = \<lparr>num_el = 2, line = [(Some ''port'', Some ''80''), (Some ''tag'', None)]\<rparr>"

definition unknown_label_line :: matcher_line where
  "unknown_label_line = \<lparr>num_el = 1, line = [(Some ''foo'', Some ''bar'')]\<rparr>"

subsection \<open>Notions for the printed line\<close>

text \<open>
  The name that is printed for a label: the \<^verbatim>\<open>NAME\<close> of the class that the chain of
  comparisons chooses. \<open>column_text\<close> is what is printed for a column of the line.
\<close>

definition canonical_name :: "string \<Rightarrow> string" where
  "canonical_name label =
     (if strcasecmp_eq label ''port'' then ''Port''
      else if strcasecmp_eq label ''iport'' then ''IPort''
      else if strcasecmp_eq label ''scheme'' then ''Scheme''
      else if strcasecmp_eq label ''method'' then ''Method''
      else if strcasecmp_eq label ''prefix'' then ''Prefix''
      else if strcasecmp_eq label ''suffix'' then ''Suffix''
      else if strcasecmp_eq label ''src_ip'' then ''SrcIP''
      else if strcasecmp_eq label ''time'' then ''Time''
      else if strcasecmp_eq label ''tag'' then ''Tag''
      else if strcasecmp_eq label ''internal'' then ''Internal''
      else [])"

definition column_text :: "'ip externals \<Rightarrow> string option \<times> string option \<Rightarrow> string" where
  "column_text ext e = (case entry_mod ext e of None \<Rightarrow> ''INVALID  '' | Some m \<Rightarrow> Modifier_print ext m)"

definition printed_line :: matcher_line where
  "printed_line = \<lparr>num_el = 3, line = [(Some ''METHOD'', Some ''GET''), (None, None),
      (Some ''suffix'', Some ''.html,.htm''), (Some ''time'', Some ''10:00-11:00'')]\<rparr>"

definition empty_suffix_line :: matcher_line where
  "empty_suffix_line = \<lparr>num_el = 1, line = [(Some ''suffix'', Some '','')]\<rparr>"

definition one_tag_line :: "int \<Rightarrow> matcher_line" where
  "one_tag_line n = \<lparr>num_el = n, line = [(Some ''tag'', Some ''a'')]\<rparr>"

section \<open>Properties\<close>

subsection \<open>Evaluation of requests\<close>

lemma findModOfType_None_iff:
  "findModOfType mods t = None \<longleftrightarrow> (\<forall>m. Some m \<in> set mods \<longrightarrow> Modifier_type m \<noteq> t)"
  by (induction mods) (auto split: option.splits)

text \<open>
  C8. A request without a header view is accepted by every modifier set: the result is
  \<open>True\<close> whatever the set holds, so no modifier is consulted.
\<close>

theorem CheckModifiers_no_header:
  "hdr request_data = None \<Longrightarrow> CheckModifiers ext mods request_data = Some True"
  by (simp add: CheckModifiers_def)

theorem CheckModifiers_no_header_witness:
  "hdr (example_request None None) = None
   \<and> CheckModifiers example_externals [Some (PortMod 1 2), Some (TagMod ''t'')]
        (example_request None None) = Some True"
  using CheckModifiers_no_header [of "example_request None None" example_externals
      "[Some (PortMod 1 2), Some (TagMod ''t'')]"]
  by (simp add: example_request_def)

text \<open>
  C2. A request with a header view and a null tag is rejected by every set that holds a
  modifier of type \<open>TAG\<close>; nothing is assumed about the other modifiers of the set.
\<close>

theorem CheckModifiers_tag_required:
  "hdr request_data = Some h \<Longrightarrow> tag request_data = None \<Longrightarrow> Some m \<in> set mods
   \<Longrightarrow> Modifier_type m = TAG \<Longrightarrow> CheckModifiers ext mods request_data = Some False"
  using findModOfType_None_iff [of mods TAG] by (auto simp: CheckModifiers_def)

theorem CheckModifiers_tag_required_witness:
  "hdr (example_request (Some example_header) None) = Some example_header
   \<and> tag (example_request (Some example_header) None) = None
   \<and> Some (TagMod ''t'') \<in> set [Some (PortMod 80 80), Some (TagMod ''t'')]
   \<and> Modifier_type (TagMod ''t'' :: nat Modifier) = TAG
   \<and> CheckModifiers example_externals [Some (PortMod 80 80), Some (TagMod ''t'')]
        (example_request (Some example_header) None) = Some False"
  using CheckModifiers_tag_required [of "example_request (Some example_header) None"
      example_header "TagMod ''t''" "[Some (PortMod 80 80), Some (TagMod ''t'')]" example_externals]
  by (simp add: example_request_def)

subsection \<open>The time modifier\<close>

lemma TimeMod_make_Some:
  "TimeMod_make val error = Some (Some m, error') \<Longrightarrow> \<exists>s e. m = TimeMod s e"
  by (auto simp: TimeMod_make_def Let_def split: if_splits option.splits sum.splits)

lemma TimeMod_make_2300_0100:
  "(TimeMod_make ''23:00-01:00'' None :: nat made) = Some (Some (TimeMod 82800 3600), None)"
  by code_simp

text \<open>
  C3. A time modifier that \<^verbatim>\<open>TimeMod::make\<close> has built holds two bounds, and its check
  is true exactly when the local seconds since midnight of the start of the transaction
  lie between them, bounds included. When the start bound exceeds the end bound the
  check is false for every request.
\<close>

theorem TimeMod_check_inclusive:
  "TimeMod_make val error = Some (Some m, error') \<Longrightarrow>
     \<exists>start_time end_time. m = TimeMod start_time end_time
       \<and> (\<forall>ext req. Modifier_check ext m req
             = Some (start_time \<le> local_seconds ext req \<and> local_seconds ext req \<le> end_time))
       \<and> (end_time < start_time \<longrightarrow> (\<forall>ext req. Modifier_check ext m req = Some False))"
proof -
  assume "TimeMod_make val error = Some (Some m, error')"
  then obtain s e where m: "m = TimeMod s e" using TimeMod_make_Some by blast
  have chk: "Modifier_check ext m req
      = Some (s \<le> local_seconds ext req \<and> local_seconds ext req \<le> e)"
    for ext :: "'a externals" and req
    by (simp add: m local_seconds_def Let_def)
  have "e < s \<Longrightarrow> Modifier_check ext m req = Some False" for ext :: "'a externals" and req
    using chk [of ext req] by auto
  with m chk show ?thesis by blast
qed

theorem TimeMod_check_inclusive_witness:
  "(TimeMod_make ''23:00-01:00'' None :: nat made) = Some (Some (TimeMod 82800 3600), None)
   \<and> (\<forall>ext req. Modifier_check ext (TimeMod 82800 3600 :: nat Modifier) req
         = Some (82800 \<le> local_seconds ext req \<and> local_seconds ext req \<le> 3600))
   \<and> (\<forall>ext req. Modifier_check ext (TimeMod 82800 3600 :: nat Modifier) req = Some False)"
proof -
  from TimeMod_check_inclusive [OF TimeMod_make_2300_0100]
  obtain s e where m: "(TimeMod 82800 3600 :: nat Modifier) = TimeMod s e"
    and chk: "\<forall>ext req. Modifier_check ext (TimeMod 82800 3600 :: nat Modifier) req
                = Some (s \<le> local_seconds ext req \<and> local_seconds ext req \<le> e)"
    and neg: "e < s \<longrightarrow> (\<forall>ext req. Modifier_check ext (TimeMod 82800 3600 :: nat Modifier) req = Some False)"
    by blast
  from m have "s = 82800" and "e = 3600" by simp_all
  with chk neg show ?thesis
    using TimeMod_make_2300_0100 by (simp del: Modifier_check.simps)
qed

subsection \<open>The type of a modifier\<close>

lemma strcasecmp_port: "strcasecmp_eq ''port'' ''port''"
  by code_simp

lemma sscanf_d_80: "sscanf_d ''80'' = Some 80"
  by code_simp

text \<open>
  C4. The line \<^verbatim>\<open>port=80\<close> is accepted and gives one port modifier. Its type is
  \<open>INVALID\<close>, not \<open>PORT\<close>, and a search of the set for a modifier of type \<open>PORT\<close> finds
  nothing.
\<close>

theorem PortMod_type_INVALID:
  "ProcessModifiers ext \<lparr>num_el = 1, line = [(Some ''port'', Some ''80'')]\<rparr> []
     = Some (None, [Some (PortMod 80 80)])
   \<and> Modifier_type (PortMod 80 80 :: 'ip Modifier) = INVALID
   \<and> findModOfType [Some (PortMod 80 80 :: 'ip Modifier)] PORT = None"
  by (simp add: ProcessModifiers_def clear_def make_by_label_def with_err_def strcasecmp_port
        PortMod_make_def Tokenizer_at_def sscanf_d_80)

subsection \<open>The internal modifier\<close>

lemma strncasecmp_truex:
  "\<not> strncasecmp_eq ''false'' ''truex'' 5" "strncasecmp_eq ''true'' ''truex'' 4"
  by code_simp+

text \<open>
  C5. The value \<^verbatim>\<open>truex\<close> is neither \<^verbatim>\<open>true\<close> nor \<^verbatim>\<open>false\<close>, and
  \<^verbatim>\<open>InternalMod::make\<close> builds a modifier from it, with the flag set and no message.
\<close>

theorem InternalMod_make_truex:
  "(InternalMod_make ''truex'' None :: 'ip made) = Some (Some (InternalMod True), None)"
  by (simp add: InternalMod_make_def strncasecmp_truex)

subsection \<open>Tokens and decimal numerals\<close>

lemma Tokenizer_Initialize_nonempty: "Tokenizer_Initialize d s \<noteq> []"
  by (induction s) (auto split: list.splits)

lemma length_Tokenizer_Initialize:
  "length (Tokenizer_Initialize d s) = Suc (count_list s d)"
  by (induction s) (auto split: list.splits simp: Tokenizer_Initialize_nonempty)

lemma Tokenizer_Initialize_no_delimiter:
  "d \<notin> set s \<Longrightarrow> Tokenizer_Initialize d s = [s]"
  by (induction s) auto

lemma Tokenizer_Initialize_split:
  "d \<notin> set a \<Longrightarrow> Tokenizer_Initialize d (a @ d # b) = a # Tokenizer_Initialize d b"
  by (induction a) auto

lemma isdigit_simps:
  "isdigit c \<Longrightarrow> \<not> isspace c" "isdigit c \<Longrightarrow> c \<noteq> CHR ''-''" "isdigit c \<Longrightarrow> c \<noteq> CHR ''+''"
  by (auto simp: isdigit_def isspace_def)

lemma dec_nat_digits: "c \<in> set (dec_nat n) \<Longrightarrow> isdigit c"
proof (induction n arbitrary: c rule: dec_nat.induct)
  case (1 n)
  show ?case
  proof (cases "n < 10")
    case True
    with "1.prems" show ?thesis by (simp add: dec_nat.simps [of n] isdigit_def)
  next
    case False
    with "1.prems" "1.IH" show ?thesis
      by (auto simp: dec_nat.simps [of n] isdigit_def)
  qed
qed

lemma dec_nat_nonempty: "dec_nat n \<noteq> []"
  by (subst dec_nat.simps) simp

lemma digits_value_snoc:
  "digits_value (ds @ [c]) = 10 * digits_value ds + ((of_char c :: nat) - 48)"
  by (simp add: digits_value_def)

lemma digits_value_dec_nat: "digits_value (dec_nat n) = n"
proof (induction n rule: dec_nat.induct)
  case (1 n)
  show ?case
  proof (cases "n < 10")
    case True
    then show ?thesis by (simp add: dec_nat.simps [of n] digits_value_def)
  next
    case False
    with "1.IH" show ?thesis
      by (simp add: dec_nat.simps [of n] digits_value_snoc)
  qed
qed

lemma scan_number_digits:
  assumes "ds \<noteq> []" and "\<forall>c \<in> set ds. isdigit c"
  shows "scan_number ds = Some (False, digits_value ds, [])"
proof -
  obtain c cs where ds: "ds = c # cs" using assms(1) by (cases ds) auto
  have c: "isdigit c" using assms(2) ds by simp
  have tw: "takeWhile isdigit (c # cs) = c # cs" "dropWhile isdigit (c # cs) = []"
    using assms(2) unfolding ds by (simp_all add: takeWhile_eq_all_conv)
  have sp: "dropWhile isspace (c # cs) = c # cs" using c by (simp add: isdigit_simps)
  show ?thesis
    unfolding ds scan_number_def Let_def sp
    using c by (simp add: tw isdigit_simps del: takeWhile.simps dropWhile.simps)
qed

lemma conv_d_small: "n < 2 ^ 31 \<Longrightarrow> conv_d False n = int n"
  by (simp add: conv_d_def int_wrap_def)

lemma sscanf_d_dec_nat: "n < 2 ^ 31 \<Longrightarrow> sscanf_d (dec_nat n) = Some (int n)"
  using scan_number_digits [of "dec_nat n"] dec_nat_digits [of _ n] dec_nat_nonempty [of n]
  by (simp add: sscanf_d_def digits_value_dec_nat conv_d_small)

lemma dash_notin_dec_nat: "CHR ''-'' \<notin> set (dec_nat n)"
  using dec_nat_digits [of "CHR ''-''" n] isdigit_simps(2) by blast

subsection \<open>The port modifier\<close>

lemma PortMod_make_single:
  "n < 2 ^ 31 \<Longrightarrow> PortMod_make (dec_nat n) error = Some (Some (PortMod (int n) (int n)), None)"
  by (simp add: PortMod_make_def Tokenizer_Initialize_no_delimiter dash_notin_dec_nat
        Tokenizer_at_def sscanf_d_dec_nat)

lemma PortMod_make_pair:
  "n < 2 ^ 31 \<Longrightarrow> m < 2 ^ 31 \<Longrightarrow>
   PortMod_make (dec_nat n @ CHR ''-'' # dec_nat m) error =
     (if m < n then Some (None, Some ''Malformed Range: end port < start port'')
      else Some (Some (PortMod (int n) (int m)), None))"
  by (simp add: PortMod_make_def Tokenizer_Initialize_no_delimiter Tokenizer_Initialize_split
        dash_notin_dec_nat Tokenizer_at_def sscanf_d_dec_nat)

lemma dec_nat_80_443: "dec_nat 80 = ''80''" "dec_nat 443 = ''443''"
  by code_simp+

text \<open>
  C6, as the code has it. For port numbers \<open>N\<close> and \<open>M\<close> in the range of \<^verbatim>\<open>int\<close>, written
  in decimal: the value \<open>N\<close> gives the range from \<open>N\<close> to \<open>N\<close>; the value \<open>N-M\<close> gives the
  range from \<open>N\<close> to \<open>M\<close> when \<open>N \<le> M\<close>, and fails with the message
  \<^verbatim>\<open>Malformed Range: end port < start port\<close> when \<open>M < N\<close>. The check of a port modifier
  is true exactly when the port of the request lies in the range, bounds included.
\<close>

theorem PortMod_make_and_check:
  "N < 2 ^ 31 \<Longrightarrow> M < 2 ^ 31 \<Longrightarrow>
     (PortMod_make (dec_nat N) error :: 'ip made) = Some (Some (PortMod (int N) (int N)), None)
   \<and> (N \<le> M \<longrightarrow> (PortMod_make (dec_nat N @ ''-'' @ dec_nat M) error :: 'ip made)
                     = Some (Some (PortMod (int N) (int M)), None))
   \<and> (M < N \<longrightarrow> (PortMod_make (dec_nat N @ ''-'' @ dec_nat M) error :: 'ip made)
                     = Some (None, Some ''Malformed Range: end port < start port''))
   \<and> (\<forall>(ext :: 'ip externals) req h start_port end_port. hdr req = Some h \<longrightarrow>
         Modifier_check ext (PortMod start_port end_port) req
           = Some (start_port \<le> port_get h \<and> port_get h \<le> end_port))"
  by (simp add: PortMod_make_single PortMod_make_pair Let_def)

theorem PortMod_make_and_check_witness:
  "(80::nat) < 2 ^ 31 \<and> (443::nat) < 2 ^ 31
   \<and> (PortMod_make ''80'' None :: nat made) = Some (Some (PortMod 80 80), None)
   \<and> (PortMod_make ''80-443'' None :: nat made) = Some (Some (PortMod 80 443), None)
   \<and> (PortMod_make ''443-80'' None :: nat made)
        = Some (None, Some ''Malformed Range: end port < start port'')
   \<and> Modifier_check example_externals (PortMod 80 443) (request_on_port 80) = Some True
   \<and> Modifier_check example_externals (PortMod 80 443) (request_on_port 100) = Some True
   \<and> Modifier_check example_externals (PortMod 80 443) (request_on_port 443) = Some True
   \<and> Modifier_check example_externals (PortMod 80 443) (request_on_port 79) = Some False
   \<and> Modifier_check example_externals (PortMod 80 443) (request_on_port 444) = Some False"
  using PortMod_make_and_check [of 80 443 "None :: string option", where 'ip = nat]
        PortMod_make_and_check [of 443 80 "None :: string option", where 'ip = nat]
  by (simp add: dec_nat_80_443 request_on_port_def)

text \<open>
  The message for the value \<^verbatim>\<open>443-80\<close> is not the bare text \<^verbatim>\<open>end port < start port\<close>.
\<close>

theorem PortMod_make_message_counterexample:
  "(PortMod_make ''443-80'' None :: nat made) \<noteq> Some (None, Some ''end port < start port'')"
  by code_simp

subsection \<open>Construction of the time modifier\<close>

lemma TimeMod_make_no_separator:
  "count_list val CHR ''-'' = 0 \<Longrightarrow> TimeMod_make val error = Some (None, Some ''End time not specified'')"
  by (simp add: TimeMod_make_def length_Tokenizer_Initialize)

lemma TimeMod_make_many_separators:
  "1 < count_list val CHR ''-'' \<Longrightarrow> TimeMod_make val error = Some (None, Some ''Malformed time range'')"
  by (simp add: TimeMod_make_def length_Tokenizer_Initialize)

lemma TimeMod_make_one_separator:
  "TimeMod_make val error = Some (Some m, error') \<Longrightarrow> count_list val CHR ''-'' = 1"
  by (auto simp: TimeMod_make_def Let_def length_Tokenizer_Initialize split: if_splits)

lemma TimeMod_make_sides:
  "CHR ''-'' \<notin> set a \<Longrightarrow> CHR ''-'' \<notin> set b \<Longrightarrow>
   TimeMod_make (a @ CHR ''-'' # b) error =
     (case timeOfDayToSeconds a of
        Inl e \<Rightarrow> Some (None, Some e)
      | Inr start_time \<Rightarrow>
          (case timeOfDayToSeconds b of
             Inl e \<Rightarrow> Some (None, Some e)
           | Inr end_time \<Rightarrow> Some (Some (TimeMod start_time end_time), None)))"
  by (simp add: TimeMod_make_def Tokenizer_Initialize_split Tokenizer_Initialize_no_delimiter
        Tokenizer_at_def split: sum.splits)

lemma timeOfDayToSeconds_hour:
  "scanned_time side = Some (hour, minute, sec) \<Longrightarrow> \<not> (0 \<le> hour \<and> hour \<le> 23)
   \<Longrightarrow> timeOfDayToSeconds side = Inl ''Illegal hour specification''"
  by (simp add: timeOfDayToSeconds_def)

lemma timeOfDayToSeconds_Inr_iff:
  "timeOfDayToSeconds side = Inr t \<longleftrightarrow>
     (\<exists>hour minute sec. scanned_time side = Some (hour, minute, sec)
        \<and> 0 \<le> hour \<and> hour \<le> 23 \<and> 0 \<le> minute \<and> minute \<le> 59 \<and> 0 \<le> sec \<and> sec \<le> 59
        \<and> t = hour * 3600 + minute * 60 + sec)"
  by (auto simp: timeOfDayToSeconds_def split: option.splits)

text \<open>
  C7. \<^verbatim>\<open>TimeMod::make\<close> on a value without a separator \<^verbatim>\<open>-\<close> fails with
  \<^verbatim>\<open>End time not specified\<close>, on a value with more than one separator with
  \<^verbatim>\<open>Malformed time range\<close>, and builds a modifier only from a value with exactly one.
  With one separator the two sides are converted in turn, and the first failure is the
  message. A side whose hour, as \<^verbatim>\<open>sscanf\<close> reads it, is outside 0 to 23 fails with
  \<^verbatim>\<open>Illegal hour specification\<close>; a side is converted exactly when its hour is in 0 to
  23 and its minute and second are in 0 to 59, to the seconds since midnight.
\<close>

theorem TimeMod_make_separators:
  "(count_list val CHR ''-'' = 0 \<longrightarrow>
      (TimeMod_make val error :: 'ip made) = Some (None, Some ''End time not specified''))
   \<and> (1 < count_list val CHR ''-'' \<longrightarrow>
      (TimeMod_make val error :: 'ip made) = Some (None, Some ''Malformed time range''))
   \<and> (\<forall>m error'. (TimeMod_make val error :: 'ip made) = Some (Some m, error')
        \<longrightarrow> count_list val CHR ''-'' = 1)
   \<and> (CHR ''-'' \<notin> set a \<and> CHR ''-'' \<notin> set b \<longrightarrow>
      (TimeMod_make (a @ ''-'' @ b) error :: 'ip made) =
        (case timeOfDayToSeconds a of
           Inl e \<Rightarrow> Some (None, Some e)
         | Inr start_time \<Rightarrow>
             (case timeOfDayToSeconds b of
                Inl e \<Rightarrow> Some (None, Some e)
              | Inr end_time \<Rightarrow> Some (Some (TimeMod start_time end_time), None))))
   \<and> (\<forall>hour minute sec. scanned_time side = Some (hour, minute, sec) \<and> \<not> (0 \<le> hour \<and> hour \<le> 23)
        \<longrightarrow> timeOfDayToSeconds side = Inl ''Illegal hour specification'')
   \<and> (\<forall>t. timeOfDayToSeconds side = Inr t \<longleftrightarrow>
        (\<exists>hour minute sec. scanned_time side = Some (hour, minute, sec)
           \<and> 0 \<le> hour \<and> hour \<le> 23 \<and> 0 \<le> minute \<and> minute \<le> 59 \<and> 0 \<le> sec \<and> sec \<le> 59
           \<and> t = hour * 3600 + minute * 60 + sec))"
proof (intro conjI impI allI)
  show "TimeMod_make val error = Some (None, Some ''End time not specified'')"
    if "count_list val CHR ''-'' = 0"
    using that by (rule TimeMod_make_no_separator)
  show "TimeMod_make val error = Some (None, Some ''Malformed time range'')"
    if "1 < count_list val CHR ''-''"
    using that by (rule TimeMod_make_many_separators)
  show "count_list val CHR ''-'' = 1"
    if "(TimeMod_make val error :: 'ip made) = Some (Some m, error')" for m error'
    using that by (rule TimeMod_make_one_separator)
  show "TimeMod_make (a @ ''-'' @ b) error =
        (case timeOfDayToSeconds a of
           Inl e \<Rightarrow> Some (None, Some e)
         | Inr start_time \<Rightarrow>
             (case timeOfDayToSeconds b of
                Inl e \<Rightarrow> Some (None, Some e)
              | Inr end_time \<Rightarrow> Some (Some (TimeMod start_time end_time), None)))"
    if "CHR ''-'' \<notin> set a \<and> CHR ''-'' \<notin> set b"
    using that TimeMod_make_sides [of a b error] by simp
  show "timeOfDayToSeconds side = Inl ''Illegal hour specification''"
    if "scanned_time side = Some (hour, minute, sec) \<and> \<not> (0 \<le> hour \<and> hour \<le> 23)"
    for hour minute sec
    using that timeOfDayToSeconds_hour by blast
  show "timeOfDayToSeconds side = Inr t \<longleftrightarrow>
        (\<exists>hour minute sec. scanned_time side = Some (hour, minute, sec)
           \<and> 0 \<le> hour \<and> hour \<le> 23 \<and> 0 \<le> minute \<and> minute \<le> 59 \<and> 0 \<le> sec \<and> sec \<le> 59
           \<and> t = hour * 3600 + minute * 60 + sec)" for t
    by (rule timeOfDayToSeconds_Inr_iff)
qed

lemma time_examples:
  "count_list ''10:00'' CHR ''-'' = 0"
  "count_list ''10:00-11:00-12:00'' CHR ''-'' = 2"
  "scanned_time ''25:00'' = Some (25, 0, 0)"
  "scanned_time ''10:30:15'' = Some (10, 30, 15)"
  "timeOfDayToSeconds ''25:00'' = Inl ''Illegal hour specification''"
  by code_simp+

theorem TimeMod_make_separators_witness:
  "count_list ''10:00'' CHR ''-'' = 0
   \<and> (TimeMod_make ''10:00'' None :: nat made) = Some (None, Some ''End time not specified'')
   \<and> 1 < count_list ''10:00-11:00-12:00'' CHR ''-''
   \<and> (TimeMod_make ''10:00-11:00-12:00'' None :: nat made) = Some (None, Some ''Malformed time range'')
   \<and> CHR ''-'' \<notin> set ''25:00'' \<and> CHR ''-'' \<notin> set ''01:00''
   \<and> (TimeMod_make ''25:00-01:00'' None :: nat made) = Some (None, Some ''Illegal hour specification'')
   \<and> scanned_time ''25:00'' = Some (25, 0, 0) \<and> \<not> (0 \<le> (25::int) \<and> (25::int) \<le> 23)
   \<and> timeOfDayToSeconds ''25:00'' = Inl ''Illegal hour specification''
   \<and> scanned_time ''10:30:15'' = Some (10, 30, 15)
   \<and> timeOfDayToSeconds ''10:30:15'' = Inr 37815"
  using TimeMod_make_separators [of "''10:00''" None "''25:00''" "''01:00''" "''25:00''", where 'ip = nat]
        TimeMod_make_separators [of "''10:00-11:00-12:00''" None "''25:00''" "''01:00''" "''10:30:15''", where 'ip = nat]
  by (simp add: time_examples)

subsection \<open>The line processor\<close>

lemma well_made_PortMod: "well_made (PortMod_make v None)"
proof -
  obtain t ts where toks: "Tokenizer_Initialize CHR ''-'' v = t # ts"
    using Tokenizer_Initialize_nonempty [of "CHR ''-''" v] by (cases "Tokenizer_Initialize CHR ''-'' v") auto
  show ?thesis
    by (auto simp: well_made_def PortMod_make_def Let_def toks Tokenizer_at_def split: option.splits)
qed

lemma well_made_TimeMod: "well_made (TimeMod_make v None)"
proof -
  obtain t ts where toks: "Tokenizer_Initialize CHR ''-'' v = t # ts"
    using Tokenizer_Initialize_nonempty [of "CHR ''-''" v] by (cases "Tokenizer_Initialize CHR ''-'' v") auto
  show ?thesis
    by (auto simp: well_made_def TimeMod_make_def Let_def toks Tokenizer_at_def split: option.splits sum.splits)
qed

lemma well_made_others:
  "well_made (IPortMod_make v None)"
  "well_made (SchemeMod_make ext v None)"
  "well_made (MethodMod_make v None)"
  "well_made (PrefixMod_make v None)"
  "well_made (SuffixMod_make v None)"
  "well_made (SrcIPMod_make ext v None)"
  "well_made (TagMod_make v None)"
  "well_made (InternalMod_make v None)"
  by (auto simp: well_made_def IPortMod_make_def SchemeMod_make_def MethodMod_make_def
        PrefixMod_make_def SuffixMod_make_def SrcIPMod_make_def TagMod_make_def InternalMod_make_def
        Let_def split: option.splits sum.splits)


lemma good_with_err: "well_made r \<Longrightarrow> good_triple (with_err UNKNOWN r)"
  by (auto simp: well_made_def good_triple_def with_err_def)

lemma unrecognized_iff:
  "unrecognized l \<longleftrightarrow>
     \<not> strcasecmp_eq l ''port'' \<and> \<not> strcasecmp_eq l ''iport'' \<and> \<not> strcasecmp_eq l ''scheme''
     \<and> \<not> strcasecmp_eq l ''method'' \<and> \<not> strcasecmp_eq l ''prefix'' \<and> \<not> strcasecmp_eq l ''suffix''
     \<and> \<not> strcasecmp_eq l ''src_ip'' \<and> \<not> strcasecmp_eq l ''time'' \<and> \<not> strcasecmp_eq l ''tag''
     \<and> \<not> strcasecmp_eq l ''internal''"
  by (simp add: unrecognized_def known_labels_def)

lemma make_by_label_unrecognized:
  "unrecognized l \<Longrightarrow> make_by_label ext l v errBuf err = Some (None, errBuf, BAD_MOD)"
  by (simp add: make_by_label_def unrecognized_iff)

lemma make_by_label_recognized:
  "\<not> unrecognized l \<Longrightarrow> good_triple (make_by_label ext l v None UNKNOWN)"
  unfolding make_by_label_def unrecognized_iff
  by (auto simp: good_with_err well_made_PortMod well_made_TimeMod well_made_others)

lemma make_by_label_cases:
  "(\<exists>m. make_by_label ext l v None UNKNOWN = Some (Some m, None, UNKNOWN) \<and> \<not> unrecognized l)
   \<or> (\<exists>msg. make_by_label ext l v None UNKNOWN = Some (None, Some msg, UNKNOWN) \<and> \<not> unrecognized l)
   \<or> (make_by_label ext l v None UNKNOWN = Some (None, None, BAD_MOD) \<and> unrecognized l)"
  using make_by_label_unrecognized [of l ext v None UNKNOWN] make_by_label_recognized [of l ext v]
  by (auto simp: good_triple_def)

lemma scan_line_stopped:
  "err \<noteq> UNKNOWN \<Longrightarrow> scan_line ext slots n err eb ms = Some (err, eb, ms)"
  by (cases slots) auto

lemma pending_of_simps:
  "pending_of n [] = []"
  "pending_of 0 slots = []"
  "pending_of n ((None, val) # rest) = pending_of n rest"
  "0 < n \<Longrightarrow> pending_of n ((Some l, val) # rest) = (Some l, val) # pending_of (n - 1) rest"
  by (simp_all add: pending_of_def take_Cons' nat_diff_distrib')

lemma accepted_iff:
  "accepted ext (Some l, Some v) \<longleftrightarrow> (\<exists>m. make_by_label ext l v None UNKNOWN = Some (Some m, None, UNKNOWN))"
  by (auto simp: accepted_def split: option.splits mod_errors.splits)

lemma accepted_null_value: "\<not> accepted ext (label, None)" "\<not> accepted ext (None, val)"
  by (simp_all add: accepted_def split: option.splits)

lemma scan_line_pending:
  "0 \<le> n \<Longrightarrow>
   (case find (\<lambda>e. \<not> accepted ext e) (pending_of n slots) of
      None \<Rightarrow> scan_line ext slots n UNKNOWN None ms
                = Some (UNKNOWN, None, ms @ map (entry_mod ext) (pending_of n slots))
    | Some e \<Rightarrow> \<exists>ms'. scan_line ext slots n UNKNOWN None ms
                = Some (fst (entry_failure ext e), snd (entry_failure ext e), ms'))"
proof (induction slots arbitrary: n ms)
  case Nil
  then show ?case by (simp add: pending_of_simps)
next
  case (Cons slot rest)
  obtain label val where slot: "slot = (label, val)" by (cases slot)
  show ?case
  proof (cases "n = 0")
    case True
    then show ?thesis by (auto simp: slot pending_of_simps)
  next
    case False
    with Cons.prems have n: "0 < n" by simp
    show ?thesis
    proof (cases label)
      case None
      with Cons.IH [of n ms] Cons.prems n show ?thesis
        by (auto simp: slot pending_of_simps split: option.splits)
    next
      case (Some l)
      note label = Some
      show ?thesis
      proof (cases val)
        case None
        with n label show ?thesis
          by (auto simp: slot pending_of_simps accepted_null_value entry_failure_def split: option.splits)
      next
        case (Some v)
        note val = Some
        from make_by_label_cases [of ext l v]
        consider (ok) m where "make_by_label ext l v None UNKNOWN = Some (Some m, None, UNKNOWN)"
          | (callee) msg where "make_by_label ext l v None UNKNOWN = Some (None, Some msg, UNKNOWN)"
          | (bad) "make_by_label ext l v None UNKNOWN = Some (None, None, BAD_MOD)"
          by blast
        then show ?thesis
        proof cases
          case ok
          have acc: "accepted ext (Some l, Some v)" using ok by (simp add: accepted_iff)
          have em: "entry_mod ext (Some l, Some v) = Some m" using ok by (simp add: entry_mod_def)
          from n have "0 \<le> n - 1" by simp
          from Cons.IH [OF this, of "ms @ [Some m]"] n show ?thesis
            by (auto simp: slot label val pending_of_simps acc em ok split: option.splits)
        next
          case callee
          have acc: "\<not> accepted ext (Some l, Some v)" using callee by (simp add: accepted_iff)
          from n show ?thesis
            by (auto simp: slot label val pending_of_simps acc callee entry_failure_def scan_line_stopped
                split: option.splits)
        next
          case bad
          have acc: "\<not> accepted ext (Some l, Some v)" using bad by (simp add: accepted_iff)
          from n show ?thesis
            by (auto simp: slot label val pending_of_simps acc bad entry_failure_def scan_line_stopped
                split: option.splits)
        qed
      qed
    qed
  qed
qed

lemma pending_of_labelled: "e \<in> set (pending_of n slots) \<Longrightarrow> fst e \<noteq> None"
proof -
  assume "e \<in> set (pending_of n slots)"
  then have "e \<in> set (filter (\<lambda>(label, val). label \<noteq> None) slots)"
    unfolding pending_of_def by (rule in_set_takeD)
  then show ?thesis by auto
qed

lemma entry_failure_cases:
  assumes "\<not> accepted ext (label, val)" and "label \<noteq> None"
  shows "(val = None \<and> entry_failure ext (label, val) = (PARSE_FAILED, None))
    \<or> (\<exists>l v msg. label = Some l \<and> val = Some v \<and> \<not> unrecognized l
          \<and> entry_failure ext (label, val) = (CALLEE_GENERATED, Some msg))
    \<or> (\<exists>l v. label = Some l \<and> val = Some v \<and> unrecognized l
          \<and> entry_failure ext (label, val) = (BAD_MOD, None))"
proof -
  from assms(2) obtain l where label: "label = Some l" by auto
  show ?thesis
  proof (cases val)
    case None
    then show ?thesis by (simp add: label entry_failure_def)
  next
    case (Some v)
    from make_by_label_cases [of ext l v] assms(1) show ?thesis
      by (auto simp: label Some accepted_iff entry_failure_def)
  qed
qed

lemma ProcessModifiers_positive:
  assumes "0 < num_el line_info"
  shows "case find (\<lambda>e. \<not> accepted ext e) (pending line_info) of
           None \<Rightarrow> ProcessModifiers ext line_info mods
                     = Some (None, map (entry_mod ext) (pending line_info))
         | Some e \<Rightarrow> ProcessModifiers ext line_info mods
                     = Some (if fst (entry_failure ext e) \<noteq> CALLEE_GENERATED
                             then Some (errorFormats (fst (entry_failure ext e)))
                             else snd (entry_failure ext e), [])"
proof (cases "find (\<lambda>e. \<not> accepted ext e) (pending line_info)")
  case None
  with scan_line_pending [of "num_el line_info" ext "line line_info" "[]"] assms
  show ?thesis
    by (simp add: pending_def ProcessModifiers_def clear_def)
next
  case (Some e)
  then have e: "e \<in> set (pending line_info)" "\<not> accepted ext e"
    by (auto simp: find_Some_iff)
  obtain label val where lv: "e = (label, val)" by (cases e)
  from e(1) have "label \<noteq> None"
    using pending_of_labelled [of e] by (simp add: pending_def lv)
  from entry_failure_cases [OF e(2) [unfolded lv] this]
  have ne: "fst (entry_failure ext e) \<noteq> UNKNOWN" by (auto simp: lv)
  from scan_line_pending [of "num_el line_info" ext "line line_info" "[]"] assms Some
  obtain ms' where "scan_line ext (line line_info) (num_el line_info) UNKNOWN None []
      = Some (fst (entry_failure ext e), snd (entry_failure ext e), ms')"
    by (auto simp: pending_def)
  with assms ne Some show ?thesis
    by (simp add: ProcessModifiers_def clear_def)
qed

text \<open>
  C1. \<^verbatim>\<open>ProcessModifiers\<close> always returns, and with a null error or with an empty set.
  For a positive element count the result follows the first reachable column that is not
  accepted. When there is none, the error is null and the set holds, in order, one
  modifier for each reachable column. When there is one, the set is empty and there is
  one message: \<^verbatim>\<open>Unable to parse modifier\<close> when the value of that column is null,
  \<^verbatim>\<open>Unknown modifier\<close> when its label is not recognized.
\<close>

theorem ProcessModifiers_all_or_nothing:
  "(\<exists>err ms. ProcessModifiers ext line_info mods = Some (err, ms) \<and> (err = None \<or> ms = []))
   \<and> (0 < num_el line_info \<longrightarrow>
        (case find (\<lambda>e. \<not> accepted ext e) (pending line_info) of
           None \<Rightarrow>
             ProcessModifiers ext line_info mods
               = Some (None, map (entry_mod ext) (pending line_info))
             \<and> (\<forall>e \<in> set (pending line_info). \<exists>m. entry_mod ext e = Some m)
         | Some (label, val) \<Rightarrow>
             (\<exists>msg. ProcessModifiers ext line_info mods = Some (Some msg, [])
                \<and> (val = None \<longrightarrow> msg = ''Unable to parse modifier'')
                \<and> (\<forall>l v. label = Some l \<and> val = Some v \<and> unrecognized l
                      \<longrightarrow> msg = ''Unknown modifier''))))"
proof -
  have pos: "case find (\<lambda>e. \<not> accepted ext e) (pending line_info) of
           None \<Rightarrow>
             ProcessModifiers ext line_info mods
               = Some (None, map (entry_mod ext) (pending line_info))
             \<and> (\<forall>e \<in> set (pending line_info). \<exists>m. entry_mod ext e = Some m)
         | Some (label, val) \<Rightarrow>
             (\<exists>msg. ProcessModifiers ext line_info mods = Some (Some msg, [])
                \<and> (val = None \<longrightarrow> msg = ''Unable to parse modifier'')
                \<and> (\<forall>l v. label = Some l \<and> val = Some v \<and> unrecognized l
                      \<longrightarrow> msg = ''Unknown modifier''))"
    if n: "0 < num_el line_info"
  proof (cases "find (\<lambda>e. \<not> accepted ext e) (pending line_info)")
    case None
    then have all: "\<forall>e \<in> set (pending line_info). accepted ext e"
      by (auto simp: find_None_iff)
    have "\<exists>m. entry_mod ext e = Some m" if "accepted ext e" for e
      using that by (cases e) (auto simp: accepted_def entry_mod_def split: option.splits mod_errors.splits)
    with all ProcessModifiers_positive [OF n, of ext mods] None show ?thesis
      by simp
  next
    case (Some e)
    then have e: "e \<in> set (pending line_info)" "\<not> accepted ext e"
      by (auto simp: find_Some_iff)
    obtain label val where lv: "e = (label, val)" by (cases e)
    from e(1) have "label \<noteq> None"
      using pending_of_labelled [of e] by (simp add: pending_def lv)
    from entry_failure_cases [OF e(2) [unfolded lv] this]
      ProcessModifiers_positive [OF n, of ext mods] Some
    show ?thesis
      by (auto simp: lv)
  qed
  have "\<exists>err ms. ProcessModifiers ext line_info mods = Some (err, ms) \<and> (err = None \<or> ms = [])"
  proof (cases "0 < num_el line_info")
    case True
    from pos [OF True] show ?thesis
      by (auto split: option.splits)
  next
    case False
    then show ?thesis by (simp add: ProcessModifiers_def)
  qed
  with pos show ?thesis by blast
qed

lemma example_lines:
  "find (\<lambda>e. \<not> accepted example_externals e) (pending accepted_line) = None"
  "map (entry_mod example_externals) (pending accepted_line) = [Some (PortMod 80 80), Some (TagMod ''x'')]"
  "find (\<lambda>e. \<not> accepted example_externals e) (pending null_value_line) = Some (Some ''tag'', None)"
  "find (\<lambda>e. \<not> accepted example_externals e) (pending unknown_label_line) = Some (Some ''foo'', Some ''bar'')"
  "unrecognized ''foo''"
  by code_simp+

theorem ProcessModifiers_all_or_nothing_witness:
  "0 < num_el accepted_line
   \<and> find (\<lambda>e. \<not> accepted example_externals e) (pending accepted_line) = None
   \<and> ProcessModifiers example_externals accepted_line [Some (TagMod ''old'')]
       = Some (None, [Some (PortMod 80 80), Some (TagMod ''x'')])
   \<and> 0 < num_el null_value_line
   \<and> find (\<lambda>e. \<not> accepted example_externals e) (pending null_value_line) = Some (Some ''tag'', None)
   \<and> ProcessModifiers example_externals null_value_line [Some (TagMod ''old'')]
       = Some (Some ''Unable to parse modifier'', [])
   \<and> 0 < num_el unknown_label_line
   \<and> find (\<lambda>e. \<not> accepted example_externals e) (pending unknown_label_line)
       = Some (Some ''foo'', Some ''bar'')
   \<and> unrecognized ''foo''
   \<and> ProcessModifiers example_externals unknown_label_line [Some (TagMod ''old'')]
       = Some (Some ''Unknown modifier'', [])"
proof -
  have n: "0 < num_el accepted_line" "0 < num_el null_value_line" "0 < num_el unknown_label_line"
    by (simp_all add: accepted_line_def null_value_line_def unknown_label_line_def)
  have a: "ProcessModifiers example_externals accepted_line [Some (TagMod ''old'')]
       = Some (None, [Some (PortMod 80 80), Some (TagMod ''x'')])"
    using ProcessModifiers_all_or_nothing [of example_externals accepted_line "[Some (TagMod ''old'')]"]
      n(1) by (simp add: example_lines)
  have b: "ProcessModifiers example_externals null_value_line [Some (TagMod ''old'')]
       = Some (Some ''Unable to parse modifier'', [])"
    using ProcessModifiers_all_or_nothing [of example_externals null_value_line "[Some (TagMod ''old'')]"]
      n(2) by (auto simp: example_lines)
  have c: "ProcessModifiers example_externals unknown_label_line [Some (TagMod ''old'')]
       = Some (Some ''Unknown modifier'', [])"
    using ProcessModifiers_all_or_nothing [of example_externals unknown_label_line "[Some (TagMod ''old'')]"]
      n(3) by (auto simp: example_lines)
  from n a b c show ?thesis by (simp add: example_lines)
qed

subsection \<open>Printing an accepted line\<close>

lemma with_err_Some:
  "with_err UNKNOWN r = Some (Some m, None, UNKNOWN) \<longleftrightarrow> r = Some (Some m, None)"
  by (auto simp: with_err_def split: option.splits)

lemma make_Some_forms:
  "PortMod_make v None = Some (Some m, None) \<Longrightarrow> \<exists>s t. m = PortMod s t"
  "IPortMod_make v None = Some (Some m, None) \<Longrightarrow> \<exists>p. m = IPortMod p"
  "SchemeMod_make ext v None = Some (Some m, None) \<Longrightarrow> \<exists>s. m = SchemeMod s"
  "MethodMod_make v None = Some (Some m, None) \<Longrightarrow> m = MethodMod v"
  "PrefixMod_make v None = Some (Some m, None) \<Longrightarrow> m = PrefixMod (dropWhile (\<lambda>c. c = CHR ''/'') v)"
  "SuffixMod_make v None = Some (Some m, None) \<Longrightarrow> m = SuffixMod (MultiTextMod_set v)"
  "SrcIPMod_make ext v None = Some (Some m, None) \<Longrightarrow> \<exists>a b. m = SrcIPMod a b"
  "TimeMod_make v None = Some (Some m, None) \<Longrightarrow> \<exists>s t. m = TimeMod s t"
  "TagMod_make v None = Some (Some m, None) \<Longrightarrow> m = TagMod v"
  "InternalMod_make v None = Some (Some m, None) \<Longrightarrow> \<exists>f. m = InternalMod f"
  by (auto simp: PortMod_make_def IPortMod_make_def SchemeMod_make_def MethodMod_make_def
        PrefixMod_make_def SuffixMod_make_def SrcIPMod_make_def TimeMod_make_def TagMod_make_def
        InternalMod_make_def Let_def split: option.splits sum.splits if_splits)

lemma make_by_label_print:
  assumes "make_by_label ext l v None UNKNOWN = Some (Some m, None, UNKNOWN)"
  shows "Modifier_name m = canonical_name l
    \<and> (if canonical_name l = ''Suffix''
       then Modifier_print ext m = concat (map (\<lambda>t. ''Suffix='' @ t @ '' '') (MultiTextMod_set v))
       else \<exists>x. Modifier_print ext m = canonical_name l @ ''='' @ x @ ''  ''
              \<and> (canonical_name l = ''Method'' \<or> canonical_name l = ''Tag'' \<longrightarrow> x = v)
              \<and> (canonical_name l = ''Prefix'' \<longrightarrow> x = dropWhile (\<lambda>c. c = CHR ''/'') v))"
  using assms unfolding make_by_label_def canonical_name_def
  by (auto simp: with_err_Some split: if_splits dest!: make_Some_forms)

lemma ProcessModifiers_accepts:
  assumes n: "0 < num_el line_info"
    and ok: "ProcessModifiers ext line_info mods = Some (None, ms)"
  shows "ms = map (entry_mod ext) (pending line_info)"
    and "\<forall>e \<in> set (pending line_info). accepted ext e"
proof -
  have none: "find (\<lambda>e. \<not> accepted ext e) (pending line_info) = None"
  proof (cases "find (\<lambda>e. \<not> accepted ext e) (pending line_info)")
    case None
    then show ?thesis .
  next
    case (Some e)
    then have e: "e \<in> set (pending line_info)" "\<not> accepted ext e"
      by (auto simp: find_Some_iff)
    obtain label val where lv: "e = (label, val)" by (cases e)
    from e(1) have "label \<noteq> None"
      using pending_of_labelled [of e] by (simp add: pending_def lv)
    from entry_failure_cases [OF e(2) [unfolded lv] this]
      ProcessModifiers_positive [OF n, of ext mods] Some ok
    show ?thesis by (auto simp: lv)
  qed
  from ProcessModifiers_positive [OF n, of ext mods] none ok
  show "ms = map (entry_mod ext) (pending line_info)" by simp
  from none show "\<forall>e \<in> set (pending line_info). accepted ext e"
    by (auto simp: find_None_iff)
qed

lemma Print_map_entry_mod:
  "Print ext (map (entry_mod ext) cols) =
     (if cols = [] then []
      else [CHR 0x09, CHR 0x09, CHR 0x09] @ concat (map (column_text ext) cols) @ [CHR 0x0A])"
proof -
  have "map (\<lambda>cur_mod. case cur_mod of None \<Rightarrow> ''INVALID  '' | Some m \<Rightarrow> Modifier_print ext m)
          (map (entry_mod ext) cols) = map (column_text ext) cols"
    by (simp add: column_text_def)
  then show ?thesis
    by (simp add: Print_def Let_def del: map_map)
qed

text \<open>
  C9, as the code has it. When \<^verbatim>\<open>ProcessModifiers\<close> accepts a line with a positive
  element count, the set holds the modifiers of the reachable columns in their order, and
  \<^verbatim>\<open>Print\<close> writes nothing for an empty set and otherwise three tabs, the text of each
  column in that order, and a newline. The text of a column is the name for its label,
  \<^verbatim>\<open>=\<close>, a value and two spaces (the value is the one given for \<^verbatim>\<open>method\<close> and
  \<^verbatim>\<open>tag\<close>, and the one given without leading slashes for \<^verbatim>\<open>prefix\<close>); for
  \<^verbatim>\<open>suffix\<close> it is one \<^verbatim>\<open>Suffix=\<close> token with one space for each text between commas,
  and nothing when there is none.
\<close>

theorem Print_of_accepted_line:
  "0 < num_el line_info \<Longrightarrow> ProcessModifiers ext line_info mods = Some (None, ms) \<Longrightarrow>
     ms = map (entry_mod ext) (pending line_info)
   \<and> Print ext ms =
       (if pending line_info = [] then []
        else [CHR 0x09, CHR 0x09, CHR 0x09] @ concat (map (column_text ext) (pending line_info))
             @ [CHR 0x0A])
   \<and> (\<forall>(label, val) \<in> set (pending line_info).
         \<exists>l v m. label = Some l \<and> val = Some v \<and> entry_mod ext (label, val) = Some m
           \<and> column_text ext (label, val) = Modifier_print ext m
           \<and> Modifier_name m = canonical_name l
           \<and> (if canonical_name l = ''Suffix''
              then Modifier_print ext m
                     = concat (map (\<lambda>t. ''Suffix='' @ t @ '' '') (MultiTextMod_set v))
              else \<exists>x. Modifier_print ext m = canonical_name l @ ''='' @ x @ ''  ''
                     \<and> (canonical_name l = ''Method'' \<or> canonical_name l = ''Tag'' \<longrightarrow> x = v)
                     \<and> (canonical_name l = ''Prefix'' \<longrightarrow> x = dropWhile (\<lambda>c. c = CHR ''/'') v)))"
proof -
  assume n: "0 < num_el line_info" and ok: "ProcessModifiers ext line_info mods = Some (None, ms)"
  note acc = ProcessModifiers_accepts [OF n ok]
  let ?Q = "\<lambda>label val. \<exists>l v m. label = Some l \<and> val = Some v \<and> entry_mod ext (label, val) = Some m
           \<and> column_text ext (label, val) = Modifier_print ext m
           \<and> Modifier_name m = canonical_name l
           \<and> (if canonical_name l = ''Suffix''
              then Modifier_print ext m
                     = concat (map (\<lambda>t. ''Suffix='' @ t @ '' '') (MultiTextMod_set v))
              else \<exists>x. Modifier_print ext m = canonical_name l @ ''='' @ x @ ''  ''
                     \<and> (canonical_name l = ''Method'' \<or> canonical_name l = ''Tag'' \<longrightarrow> x = v)
                     \<and> (canonical_name l = ''Prefix'' \<longrightarrow> x = dropWhile (\<lambda>c. c = CHR ''/'') v))"
  have cols: "?Q label val" if "(label, val) \<in> set (pending line_info)" for label val
  proof -
    from acc(2) that have a: "accepted ext (label, val)" by blast
    then obtain l v where lv: "label = Some l" "val = Some v"
      by (cases label; cases val) (simp_all add: accepted_def)
    from a obtain m where m: "make_by_label ext l v None UNKNOWN = Some (Some m, None, UNKNOWN)"
      by (auto simp: lv accepted_iff)
    then have em: "entry_mod ext (label, val) = Some m"
      by (simp add: entry_mod_def lv)
    then have ct: "column_text ext (label, val) = Modifier_print ext m"
      by (simp add: column_text_def)
    from make_by_label_print [OF m] lv em ct show ?thesis
      by blast
  qed
  have all: "\<forall>(label, val) \<in> set (pending line_info). ?Q label val"
  proof
    fix e assume e: "e \<in> set (pending line_info)"
    obtain label val where lv: "e = (label, val)" by (cases e)
    from cols [of label val] e show "case e of (label, val) \<Rightarrow> ?Q label val"
      unfolding lv prod.case by blast
  qed
  have pr: "Print ext ms =
       (if pending line_info = [] then []
        else [CHR 0x09, CHR 0x09, CHR 0x09] @ concat (map (column_text ext) (pending line_info))
             @ [CHR 0x0A])"
    unfolding acc(1) by (rule Print_map_entry_mod)
  from acc(1) pr all show ?thesis by (intro conjI)
qed

lemma digit_chars:
  "char_of (48::nat) = CHR ''0''" "char_of (49::nat) = CHR ''1''" "char_of (50::nat) = CHR ''2''"
  "char_of (51::nat) = CHR ''3''" "char_of (52::nat) = CHR ''4''" "char_of (53::nat) = CHR ''5''"
  "char_of (54::nat) = CHR ''6''" "char_of (55::nat) = CHR ''7''" "char_of (56::nat) = CHR ''8''"
  "char_of (57::nat) = CHR ''9''"
  by code_simp+

lemma dec_36000_39600: "dec 36000 = ''36000''" "dec 39600 = ''39600''"
  by (simp_all add: dec_def dec_nat.simps digit_chars)

lemma printed_line_made:
  "ProcessModifiers example_externals printed_line []
     = Some (None, [Some (MethodMod ''GET''), Some (SuffixMod [''.html'', ''.htm'']),
                    Some (TimeMod 36000 39600)])"
  by code_simp

lemma printed_line_text:
  "Print example_externals [Some (MethodMod ''GET''), Some (SuffixMod [''.html'', ''.htm'']),
                    Some (TimeMod 36000 39600)]
     = [CHR 0x09, CHR 0x09, CHR 0x09] @ ''Method=GET  Suffix=.html Suffix=.htm Time=36000-39600  ''
       @ [CHR 0x0A]"
  by (simp add: Print_def dec_36000_39600)

lemma printed_line_pending:
  "pending printed_line = [(Some ''METHOD'', Some ''GET''),
      (Some ''suffix'', Some ''.html,.htm''), (Some ''time'', Some ''10:00-11:00'')]"
  by (simp add: pending_def pending_of_def printed_line_def)

lemma canonical_name_METHOD: "canonical_name ''METHOD'' = ''Method''"
  by code_simp

theorem Print_of_accepted_line_witness:
  "0 < num_el printed_line
   \<and> ProcessModifiers example_externals printed_line []
       = Some (None, [Some (MethodMod ''GET''), Some (SuffixMod [''.html'', ''.htm'']),
                      Some (TimeMod 36000 39600)])
   \<and> [Some (MethodMod ''GET''), Some (SuffixMod [''.html'', ''.htm'']), Some (TimeMod 36000 39600)]
       = map (entry_mod example_externals) (pending printed_line)
   \<and> [CHR 0x09, CHR 0x09, CHR 0x09] @ concat (map (column_text example_externals) (pending printed_line))
        @ [CHR 0x0A]
       = [CHR 0x09, CHR 0x09, CHR 0x09] @ ''Method=GET  Suffix=.html Suffix=.htm Time=36000-39600  ''
         @ [CHR 0x0A]
   \<and> (Some ''METHOD'', Some ''GET'') \<in> set (pending printed_line)
   \<and> (\<exists>m. entry_mod example_externals (Some ''METHOD'', Some ''GET'') = Some m
          \<and> Modifier_name m = ''Method''
          \<and> Modifier_print example_externals m = ''Method=GET  '')"
proof -
  have n: "0 < num_el printed_line" by (simp add: printed_line_def)
  note t = Print_of_accepted_line [OF n printed_line_made]
  note t1 = t [THEN conjunct1]
  note t2 = t [THEN conjunct2, THEN conjunct1]
  note t3 = t [THEN conjunct2, THEN conjunct2]
  have mem: "(Some ''METHOD'', Some ''GET'') \<in> set (pending printed_line)"
    by (simp add: printed_line_pending)
  have ne: "pending printed_line \<noteq> []"
    by (simp add: printed_line_pending)
  from bspec [OF t3 mem, unfolded prod.case]
  obtain l v m where lv: "Some ''METHOD'' = Some l" "Some ''GET'' = Some v"
    and em: "entry_mod example_externals (Some ''METHOD'', Some ''GET'') = Some m"
    and nm: "Modifier_name m = canonical_name l"
    and pr: "if canonical_name l = ''Suffix''
              then Modifier_print example_externals m
                     = concat (map (\<lambda>t. ''Suffix='' @ t @ '' '') (MultiTextMod_set v))
              else \<exists>x. Modifier_print example_externals m = canonical_name l @ ''='' @ x @ ''  ''
                     \<and> (canonical_name l = ''Method'' \<or> canonical_name l = ''Tag'' \<longrightarrow> x = v)
                     \<and> (canonical_name l = ''Prefix'' \<longrightarrow> x = dropWhile (\<lambda>c. c = CHR ''/'') v)"
    by blast
  from lv have l: "l = ''METHOD''" and v: "v = ''GET''" by simp_all
  have cn: "canonical_name l = ''Method''" unfolding l by (rule canonical_name_METHOD)
  from nm have nm': "Modifier_name m = ''Method''" unfolding cn .
  from pr have "Modifier_print example_externals m = ''Method=GET  ''"
    unfolding cn v by simp
  with em nm' have c: "\<exists>m. entry_mod example_externals (Some ''METHOD'', Some ''GET'') = Some m
          \<and> Modifier_name m = ''Method''
          \<and> Modifier_print example_externals m = ''Method=GET  ''"
    by (intro exI conjI)
  from t2 ne have b: "[CHR 0x09, CHR 0x09, CHR 0x09]
        @ concat (map (column_text example_externals) (pending printed_line)) @ [CHR 0x0A]
       = [CHR 0x09, CHR 0x09, CHR 0x09] @ ''Method=GET  Suffix=.html Suffix=.htm Time=36000-39600  ''
         @ [CHR 0x0A]"
    unfolding printed_line_text by (simp only: if_False)
  from n printed_line_made t1 b mem c show ?thesis
    by (intro conjI)
qed

text \<open>
  The line \<^verbatim>\<open>suffix=,\<close> is accepted and gives one modifier, for which \<^verbatim>\<open>Print\<close>
  writes no token: the output is three tabs and a newline.
\<close>

theorem Print_empty_suffix_counterexample:
  "ProcessModifiers example_externals empty_suffix_line [] = Some (None, [Some (SuffixMod [])])
   \<and> Print example_externals [Some (SuffixMod [])] = [CHR 0x09, CHR 0x09, CHR 0x09, CHR 0x0A]
   \<and> CHR ''='' \<notin> set (Print example_externals [Some (SuffixMod [])])"
  by code_simp

subsection \<open>The set before and after a call\<close>

lemma one_tag_line_result:
  "ProcessModifiers example_externals (one_tag_line 1) [] = Some (None, [Some (TagMod ''a'')])"
  by code_simp

text \<open>
  C10. With an element count of zero or less \<^verbatim>\<open>ProcessModifiers\<close> returns a null error
  and the set it was called with, populated or not. With a positive count the set it was
  called with has no part in the result, which is that of a call with an empty set: the set
  is cleared first.
\<close>

theorem ProcessModifiers_frame:
  "(num_el line_info \<le> 0 \<longrightarrow> ProcessModifiers ext line_info mods = Some (None, mods))
   \<and> (0 < num_el line_info \<longrightarrow>
        ProcessModifiers ext line_info mods = ProcessModifiers ext line_info [])"
  by (simp add: ProcessModifiers_def clear_def Let_def)

theorem ProcessModifiers_frame_witness:
  "num_el (one_tag_line 0) \<le> 0
   \<and> ProcessModifiers example_externals (one_tag_line 0) [Some (PortMod 1 2)]
       = Some (None, [Some (PortMod 1 2)])
   \<and> 0 < num_el (one_tag_line 1)
   \<and> ProcessModifiers example_externals (one_tag_line 1) [Some (PortMod 1 2)]
       = Some (None, [Some (TagMod ''a'')])"
  using ProcessModifiers_frame [of "one_tag_line 0" example_externals "[Some (PortMod 1 2)]"]
        ProcessModifiers_frame [of "one_tag_line 1" example_externals "[Some (PortMod 1 2)]"]
  by (simp add: one_tag_line_def one_tag_line_result [unfolded one_tag_line_def])

end
